theory Spec2Isabelle
  imports Complex_Main "HOL-Library.AList"
begin

section \<open>Values, records and the server state\<close>

text \<open>
  The model follows \<^verbatim>\<open>src/server.js\<close>. A JavaScript value is what \<^verbatim>\<open>JSON.parse\<close>
  returns, plus \<^verbatim>\<open>undefined\<close> for a property that is read but absent. An object is the
  list of its own properties in insertion order; a value that \<^verbatim>\<open>JSON.parse\<close> returns has
  each key once and holds no \<^verbatim>\<open>undefined\<close>. \<open>JNum q\<close> is a finite double (each one is a
  rational); \<open>JInfinity neg\<close> is what a numeral beyond the range of doubles parses to, such
  as \<^verbatim>\<open>1e999\<close>. The HTTP routes of lines 64 to 109 read the state without changing it and
  are left out. Of the logging, what is kept is what can throw: a template literal converts
  its value to a string.
\<close>

datatype jsval =
    JUndefined
  | JNull
  | JBool bool
  | JNum rat
  | JInfinity bool
  | JStr string
  | JArr "jsval list"
  | JObj "(string \<times> jsval) list"

text \<open>\<^verbatim>\<open>if (v)\<close> and \<^verbatim>\<open>v || w\<close>: the values that JavaScript takes as false are
  \<^verbatim>\<open>undefined\<close>, \<^verbatim>\<open>null\<close>, \<^verbatim>\<open>false\<close>, \<^verbatim>\<open>0\<close> and the empty string.\<close>

fun truthy :: "jsval \<Rightarrow> bool" where
  "truthy JUndefined = False"
| "truthy JNull = False"
| "truthy (JBool b) = b"
| "truthy (JNum n) = (n \<noteq> 0)"
| "truthy (JInfinity neg) = True"
| "truthy (JStr s) = (s \<noteq> [])"
| "truthy (JArr xs) = True"
| "truthy (JObj kvs) = True"

text \<open>\<^verbatim>\<open>message.k\<close> for a value that is neither \<^verbatim>\<open>null\<close> nor \<^verbatim>\<open>undefined\<close> and a key
  \<open>k\<close> that no prototype defines (the server reads \<^verbatim>\<open>type\<close>, \<^verbatim>\<open>device_id\<close>,
  \<^verbatim>\<open>rfid_uid\<close>, \<^verbatim>\<open>network\<close> and \<^verbatim>\<open>amount\<close>).\<close>

fun js_get :: "jsval \<Rightarrow> string \<Rightarrow> jsval" where
  "js_get (JObj kvs) k = (case map_of kvs k of Some v \<Rightarrow> v | None \<Rightarrow> JUndefined)"
| "js_get v k = JUndefined"

text \<open>
  \<^verbatim>\<open>`${v}`\<close> converts \<open>v\<close> to a string, and that conversion throws a \<^verbatim>\<open>TypeError\<close> for some
  values. An object is converted by its \<^verbatim>\<open>toString\<close> method: an object with an own property
  of that name, whose value out of \<^verbatim>\<open>JSON.parse\<close> is never a function, has no method to call
  and is left with \<^verbatim>\<open>Object.prototype.valueOf\<close>, which returns no primitive. An array joins the
  strings of its elements. \<open>printable v\<close> says that the conversion returns.
\<close>

fun printable :: "jsval \<Rightarrow> bool" where
  "printable (JArr xs) = list_all printable xs"
| "printable (JObj kvs) = (map_of kvs ''toString'' = None)"
| "printable v = True"

text \<open>
  \<^verbatim>\<open>JSON.stringify(v)\<close>, given as the value that \<^verbatim>\<open>JSON.parse\<close> reads back from the text it
  returns: a property whose value is \<^verbatim>\<open>undefined\<close> is left out, and an infinity, or an
  \<^verbatim>\<open>undefined\<close> element of an array, is written as \<^verbatim>\<open>null\<close>.
\<close>

fun JSON_stringify :: "jsval \<Rightarrow> jsval"
  and stringify_elements :: "jsval list \<Rightarrow> jsval list"
  and stringify_properties :: "(string \<times> jsval) list \<Rightarrow> (string \<times> jsval) list" where
  "JSON_stringify (JInfinity neg) = JNull"
| "JSON_stringify (JArr xs) = JArr (stringify_elements xs)"
| "JSON_stringify (JObj kvs) = JObj (stringify_properties kvs)"
| "JSON_stringify JUndefined = JUndefined"
| "JSON_stringify JNull = JNull"
| "JSON_stringify (JBool b) = JBool b"
| "JSON_stringify (JNum n) = JNum n"
| "JSON_stringify (JStr s) = JStr s"
| "stringify_elements [] = []"
| "stringify_elements (x # xs) =
     (if x = JUndefined then JNull else JSON_stringify x) # stringify_elements xs"
| "stringify_properties [] = []"
| "stringify_properties (p # kvs) =
     (if snd p = JUndefined then stringify_properties kvs
      else (fst p, JSON_stringify (snd p)) # stringify_properties kvs)"

text \<open>What the handlers can throw: the \<^verbatim>\<open>SyntaxError\<close> of \<^verbatim>\<open>JSON.parse\<close>, and the
  \<^verbatim>\<open>TypeError\<close> of reading \<^verbatim>\<open>message.type\<close> of \<^verbatim>\<open>null\<close> or of converting a value that is
  not printable.\<close>

datatype js_error = SyntaxError string | TypeError string

fun error_message :: "js_error \<Rightarrow> string" where
  "error_message (SyntaxError m) = m"
| "error_message (TypeError m) = m"

definition cannot_convert :: js_error where
  "cannot_convert = TypeError ''Cannot convert object to primitive value''"

type_synonym conn = nat

datatype client_type = unknown | esp32 | web

record client_data =
  ip :: string
  connected_at :: string
  type :: client_type
  device_id :: jsval
  lastPing :: int

text \<open>One reading of the system clock: \<^verbatim>\<open>Date.now()\<close> and
  \<^verbatim>\<open>new Date().toISOString()\<close>.\<close>

record clock =
  now :: int
  iso :: string

datatype timer_cb = PaymentCompletion jsval | ForcedShutdown

text \<open>
  What a handler does to the outside. \<open>Send c v\<close> and \<open>SendFailed c v\<close> are both the call
  \<^verbatim>\<open>c.send(text)\<close>, where \<open>v\<close> is the value that the text denotes: the first when the frame
  goes out, the second when it does not. \<open>Close\<close> is \<^verbatim>\<open>client.close(code, reason)\<close>,
  \<open>Terminate\<close> is \<^verbatim>\<open>ws.terminate()\<close>, \<open>SetTimeout\<close> registers a timer, \<open>ServerClose\<close> is
  \<^verbatim>\<open>server.close(cb)\<close> and \<open>Exit\<close> is \<^verbatim>\<open>process.exit\<close>.
\<close>

datatype effect =
    Send conn jsval
  | SendFailed conn jsval
  | Ping conn
  | Close conn nat string
  | Terminate conn
  | SetTimeout nat timer_cb
  | ServerClose
  | Exit nat

text \<open>
  The state: \<open>wss_clients\<close> is the set \<^verbatim>\<open>wss.clients\<close> of the \<^verbatim>\<open>ws\<close> library (in insertion
  order), \<open>readyState\<close> the field of each socket (0 connecting, 1 open, 2 closing, 3 closed),
  \<open>clients\<close> the \<^verbatim>\<open>Map\<close> of line 62 (in insertion order). \<open>broken\<close> marks the sockets whose
  link has failed while \<open>readyState\<close> still says open. A socket is a fresh object: \<open>next_conn\<close>
  is the next handle.
\<close>

record server =
  NODE_ENV :: string
  wss_clients :: "conn list"
  readyState :: "conn \<Rightarrow> nat"
  broken :: "conn \<Rightarrow> bool"
  clients :: "(conn \<times> client_data) list"
  next_conn :: conn

definition init :: "string \<Rightarrow> server" where
  "init env = \<lparr>NODE_ENV = env, wss_clients = [], readyState = (\<lambda>c. 3), broken = (\<lambda>c. False),
     clients = [], next_conn = 0\<rparr>"

section \<open>The transport (the ws library)\<close>

text \<open>
  The \<^verbatim>\<open>ws\<close> library is not part of the repository; these four definitions state what the
  server relies on. \<^verbatim>\<open>ws.send\<close> does not throw on a socket that has left the connecting
  state, and the sockets of a server are never in it: a frame for a socket that is not open
  is dropped, and a write that fails is reported through the \<^verbatim>\<open>'error'\<close> event, which line
  280 logs. The caller gets nothing back either way. Every property below that speaks of a
  send takes this for granted.
\<close>

definition ws_send :: "server \<Rightarrow> conn \<Rightarrow> jsval \<Rightarrow> effect" where
  "ws_send s c v = (if readyState s c = 1 \<and> \<not> broken s c then Send c v else SendFailed c v)"

text \<open>\<^verbatim>\<open>ws.terminate()\<close>: nothing on a closed socket; otherwise the socket is destroyed and
  its state becomes closing.\<close>

definition ws_terminate :: "conn \<Rightarrow> server \<Rightarrow> server" where
  "ws_terminate c s =
     (if readyState s c = 3 then s else s\<lparr>readyState := (readyState s)(c := 2)\<rparr>)"

text \<open>\<^verbatim>\<open>ws.close(code, reason)\<close>: an open socket sends the close frame and becomes closing.\<close>

definition ws_close :: "conn \<Rightarrow> server \<Rightarrow> server" where
  "ws_close c s = (if readyState s c = 1 then s\<lparr>readyState := (readyState s)(c := 2)\<rparr> else s)"

text \<open>The library accepts a socket: a fresh handle, open, added to \<^verbatim>\<open>wss.clients\<close>.\<close>

definition accept :: "server \<Rightarrow> conn \<times> server" where
  "accept s =
     (let ws = next_conn s
      in (ws, s\<lparr>wss_clients := wss_clients s @ [ws], readyState := (readyState s)(ws := 1),
                broken := (broken s)(ws := False), next_conn := Suc ws\<rparr>))"

text \<open>Before the handler of line 261 runs, the library has closed the socket and removed it
  from \<^verbatim>\<open>wss.clients\<close>.\<close>

definition socket_closed :: "conn \<Rightarrow> server \<Rightarrow> server" where
  "socket_closed c s =
     s\<lparr>wss_clients := removeAll c (wss_clients s), readyState := (readyState s)(c := 3)\<rparr>"

section \<open>Broadcast helpers (lines 294 to 339)\<close>

text \<open>The loop of the three helpers: \<open>p\<close> is the test on the client besides
  \<^verbatim>\<open>client.readyState === 1\<close>, \<open>messageStr\<close> the stringified message. It returns the sends
  and \<open>count\<close>.\<close>

fun forEach_send :: "(conn \<Rightarrow> bool) \<Rightarrow> server \<Rightarrow> jsval \<Rightarrow> conn list \<Rightarrow> effect list \<times> nat" where
  "forEach_send p s messageStr [] = ([], 0)"
| "forEach_send p s messageStr (client # rest) =
     (if p client \<and> readyState s client = 1
      then (let (es, count) = forEach_send p s messageStr rest
            in (ws_send s client messageStr # es, Suc count))
      else forEach_send p s messageStr rest)"

definition broadcastToAll :: "server \<Rightarrow> jsval \<Rightarrow> conn option \<Rightarrow> effect list \<times> nat" where
  "broadcastToAll s message sender =
     forEach_send (\<lambda>client. Some client \<noteq> sender) s (JSON_stringify message) (wss_clients s)"

definition has_type :: "server \<Rightarrow> client_type \<Rightarrow> conn \<Rightarrow> bool" where
  "has_type s t client =
     (case map_of (clients s) client of None \<Rightarrow> False | Some clientData \<Rightarrow> type clientData = t)"

definition broadcastToESP32 :: "server \<Rightarrow> jsval \<Rightarrow> effect list \<times> nat" where
  "broadcastToESP32 s message =
     forEach_send (has_type s esp32) s (JSON_stringify message) (wss_clients s)"

definition broadcastToWeb :: "server \<Rightarrow> jsval \<Rightarrow> effect list \<times> nat" where
  "broadcastToWeb s message =
     forEach_send (has_type s web) s (JSON_stringify message) (wss_clients s)"

section \<open>Connection handler (lines 112 to 291)\<close>

text \<open>Lines 113 to 133: the record is stored under the new socket and the welcome is sent.
  \<open>clk\<close> is read for the record (lines 118 and 121), \<open>clk'\<close> for the welcome (line 131).\<close>

definition on_connection ::
  "conn \<Rightarrow> string \<Rightarrow> clock \<Rightarrow> clock \<Rightarrow> server \<Rightarrow> effect list \<times> server" where
  "on_connection ws clientIP clk clk' s =
     (let s' = s\<lparr>clients := AList.update ws
                   \<lparr>ip = clientIP, connected_at = iso clk, type = unknown, device_id = JNull,
                    lastPing = now clk\<rparr> (clients s)\<rparr>
      in ([ws_send s' ws (JSON_stringify (JObj [(''type'', JStr ''welcome''),
                                (''message'', JStr ''Connected to PayTap WebSocket Server''),
                                (''server_time'', JStr (iso clk')),
                                (''environment'', JStr (NODE_ENV s'))]))], s'))"

text \<open>Lines 144 to 150: \<open>t\<close> is the \<^verbatim>\<open>Date.now()\<close> of line 146.\<close>

definition update_metadata :: "conn \<Rightarrow> jsval \<Rightarrow> int \<Rightarrow> server \<Rightarrow> server" where
  "update_metadata ws message t s =
     (case map_of (clients s) ws of
        None \<Rightarrow> s
      | Some clientData \<Rightarrow>
          s\<lparr>clients := AList.update ws
               (clientData\<lparr>lastPing := t,
                  device_id := (if truthy (js_get message ''device_id'')
                                then js_get message ''device_id'' else device_id clientData)\<rparr>)
               (clients s)\<rparr>)"

text \<open>\<^verbatim>\<open>if (clientData) clientData.type = t\<close> (lines 155 and 173).\<close>

definition set_type :: "conn \<Rightarrow> client_type \<Rightarrow> server \<Rightarrow> server" where
  "set_type ws t s =
     (case map_of (clients s) ws of
        None \<Rightarrow> s
      | Some clientData \<Rightarrow> s\<lparr>clients := AList.update ws (clientData\<lparr>type := t\<rparr>) (clients s)\<rparr>)"

text \<open>The template literal \<^verbatim>\<open>`TXN${Date.now()}`\<close>: the decimal digits of an integer.\<close>

function decimal_nat :: "nat \<Rightarrow> string" where
  "decimal_nat n =
     (if n < 10 then [''0123456789'' ! n]
      else decimal_nat (n div 10) @ [''0123456789'' ! (n mod 10)])"
  by pat_completeness auto
termination
  by (relation "measure id") auto

declare decimal_nat.simps [simp del]

definition decimal :: "int \<Rightarrow> string" where
  "decimal i = (if i < 0 then CHR ''-'' # decimal_nat (nat (- i)) else decimal_nat (nat i))"

definition payment_success :: "jsval \<Rightarrow> clock \<Rightarrow> jsval" where
  "payment_success message clk =
     JObj [(''type'', JStr ''payment_success''),
           (''rfid_uid'', js_get message ''rfid_uid''),
           (''amount'', js_get message ''amount''),
           (''transaction_id'', JStr (''TXN'' @ decimal (now clk))),
           (''timestamp'', JStr (iso clk))]"

definition payment_failed :: "jsval \<Rightarrow> clock \<Rightarrow> jsval" where
  "payment_failed message clk =
     JObj [(''type'', JStr ''payment_failed''),
           (''rfid_uid'', js_get message ''rfid_uid''),
           (''reason'', JStr ''Insufficient balance''),
           (''timestamp'', JStr (iso clk))]"

text \<open>The callback of lines 208 to 239. The two events of the first branch read the clock
  one after the other: \<open>clk1\<close> and \<open>clk2\<close>.\<close>

definition payment_completion :: "jsval \<Rightarrow> clock \<Rightarrow> clock \<Rightarrow> server \<Rightarrow> effect list" where
  "payment_completion message clk1 clk2 s =
     (let success = True
      in if success
         then fst (broadcastToESP32 s (payment_success message clk1)) @
              fst (broadcastToWeb s (payment_success message clk2))
         else fst (broadcastToESP32 s (payment_failed message clk1)))"

definition esp32_status :: "string \<Rightarrow> jsval \<Rightarrow> jsval" where
  "esp32_status status dev =
     JObj [(''type'', JStr ''esp32_status''), (''status'', JStr status), (''device_id'', dev)]"

text \<open>
  The \<^verbatim>\<open>switch\<close> of lines 153 to 249; \<^verbatim>\<open>case\<close> compares with \<^verbatim>\<open>===\<close>. The third
  component is the error thrown, if any, by the log of line 156 (after the type is set),
  of lines 183 to 185 or of line 205, each before anything is sent or scheduled.
\<close>

definition switch_type ::
  "conn \<Rightarrow> jsval \<Rightarrow> clock \<Rightarrow> server \<Rightarrow> effect list \<times> server \<times> js_error option" where
  "switch_type ws message clk s =
     (let t = js_get message ''type''
      in if t = JStr ''esp32_connected'' then
           (let s' = set_type ws esp32 s
            in if \<not> printable (js_get message ''device_id'') then ([], s', Some cannot_convert)
               else
                 (ws_send s' ws (JSON_stringify (JObj [(''type'', JStr ''connection_confirmed''),
                                     (''message'', JStr ''ESP32 connected successfully''),
                                     (''server_time'', JStr (iso clk))]))
                  # fst (broadcastToWeb s' (esp32_status ''connected'' (js_get message ''device_id''))),
                  s', None))
         else if t = JStr ''web_connected'' then
           (let s' = set_type ws web s
            in ([ws_send s' ws (JSON_stringify (JObj [(''type'', JStr ''connection_confirmed''),
                                      (''message'', JStr ''Web client connected successfully'')]))],
                s', None))
         else if t = JStr ''rfid_scan'' then
           (if \<not> printable (js_get message ''rfid_uid'') \<or>
               \<not> printable (js_get message ''device_id'') \<or>
               \<not> printable (if truthy (js_get message ''network'') then js_get message ''network''
                              else JStr ''unknown'')
            then ([], s, Some cannot_convert)
            else
              (fst (broadcastToWeb s (JObj [(''type'', JStr ''rfid_scan''),
                                            (''rfid_uid'', js_get message ''rfid_uid''),
                                            (''device_id'', js_get message ''device_id''),
                                            (''network'', js_get message ''network''),
                                            (''timestamp'', JStr (iso clk))]))
               @ [ws_send s ws (JSON_stringify (JObj [(''type'', JStr ''scan_received''),
                                      (''message'', JStr ''Card scan received by server''),
                                      (''rfid_uid'', js_get message ''rfid_uid'')]))],
               s, None))
         else if t = JStr ''payment_request'' then
           (if \<not> printable (js_get message ''amount'') \<or> \<not> printable (js_get message ''rfid_uid'')
            then ([], s, Some cannot_convert)
            else ([SetTimeout 1000 (PaymentCompletion message)], s, None))
         else if t = JStr ''ping'' then
           ([ws_send s ws (JSON_stringify (JObj [(''type'', JStr ''pong''),
                                 (''timestamp'', JNum (of_int (now clk)))]))], s, None)
         else (fst (broadcastToAll s message (Some ws)), s, None))"

text \<open>The \<^verbatim>\<open>catch\<close> of lines 251 to 258.\<close>

definition error_event :: "js_error \<Rightarrow> jsval" where
  "error_event error =
     JObj [(''type'', JStr ''error''), (''message'', JStr ''Invalid message format''),
           (''error'', JStr (error_message error))]"

definition catch_block :: "conn \<Rightarrow> js_error \<Rightarrow> server \<Rightarrow> effect list \<times> server" where
  "catch_block ws error s = ([ws_send s ws (JSON_stringify (error_event error))], s)"

text \<open>
  The message handler, lines 136 to 259. \<open>parsed\<close> is the outcome of
  \<^verbatim>\<open>JSON.parse(data.toString())\<close>: the error thrown or the value returned (never
  \<^verbatim>\<open>undefined\<close>). Line 140 logs \<^verbatim>\<open>`${message.type}`\<close> before anything else: reading the
  property throws when the value is \<^verbatim>\<open>null\<close>, and converting it throws when the type is not
  printable. Whatever the \<^verbatim>\<open>try\<close> block throws ends in the \<^verbatim>\<open>catch\<close>, with the changes
  made so far kept.
\<close>

definition on_message ::
  "conn \<Rightarrow> js_error + jsval \<Rightarrow> int \<Rightarrow> clock \<Rightarrow> server \<Rightarrow> effect list \<times> server" where
  "on_message ws parsed t clk s =
     (case parsed of
        Inl error \<Rightarrow> catch_block ws error s
      | Inr message \<Rightarrow>
          if message = JNull \<or> message = JUndefined
          then catch_block ws (TypeError ''Cannot read properties of null (reading 'type')'') s
          else if \<not> printable (js_get message ''type'') then catch_block ws cannot_convert s
          else
            (case switch_type ws message clk (update_metadata ws message t s) of
               (es, s', thrown) \<Rightarrow>
                 (case thrown of
                    None \<Rightarrow> (es, s')
                  | Some error \<Rightarrow> (es @ fst (catch_block ws error s'), s'))))"

text \<open>The close handler, lines 261 to 278.\<close>

definition on_close :: "conn \<Rightarrow> server \<Rightarrow> effect list \<times> server" where
  "on_close ws s =
     ((case map_of (clients s) ws of
         None \<Rightarrow> []
       | Some clientData \<Rightarrow>
           if type clientData = esp32
           then fst (broadcastToWeb s (esp32_status ''disconnected'' (device_id clientData)))
           else []),
      s\<lparr>clients := AList.delete ws (clients s)\<rparr>)"

text \<open>The error handler of line 280 logs; the pong handler is lines 285 to 290.\<close>

definition on_error :: "conn \<Rightarrow> server \<Rightarrow> effect list \<times> server" where
  "on_error ws s = ([], s)"

definition on_pong :: "conn \<Rightarrow> int \<Rightarrow> server \<Rightarrow> effect list \<times> server" where
  "on_pong ws t s =
     ([], case map_of (clients s) ws of
            None \<Rightarrow> s
          | Some clientData \<Rightarrow>
              s\<lparr>clients := AList.update ws (clientData\<lparr>lastPing := t\<rparr>) (clients s)\<rparr>)"

section \<open>Keep alive (lines 343 to 360)\<close>

definition ping_interval :: "server \<Rightarrow> effect list \<times> server" where
  "ping_interval s = (map Ping (filter (\<lambda>client. readyState s client = 1) (wss_clients s)), s)"

text \<open>The sweep of lines 352 to 360. For a stale record, line 356 logs
  \<^verbatim>\<open>`${data.type} - ${data.device_id}`\<close> before \<^verbatim>\<open>ws.terminate()\<close>; when that throws the
  loop ends there, and nothing catches the error.\<close>

fun forEach_stale ::
  "int \<Rightarrow> (conn \<times> client_data) list \<Rightarrow> server \<Rightarrow> effect list \<times> server \<times> js_error option" where
  "forEach_stale t [] s = ([], s, None)"
| "forEach_stale t ((ws, data) # rest) s =
     (if t - lastPing data > 120000
      then (if \<not> printable (device_id data) then ([], s, Some cannot_convert)
            else (case forEach_stale t rest (ws_terminate ws s) of
                    (es, s', thrown) \<Rightarrow> (Terminate ws # es, s', thrown)))
      else forEach_stale t rest s)"

definition stale_interval :: "int \<Rightarrow> server \<Rightarrow> effect list \<times> server \<times> js_error option" where
  "stale_interval t s = forEach_stale t (clients s) s"

section \<open>Shutdown and process handlers (lines 379 to 409)\<close>

fun forEach_close :: "conn list \<Rightarrow> server \<Rightarrow> effect list \<times> server" where
  "forEach_close [] s = ([], s)"
| "forEach_close (client # rest) s =
     (let (es, s') = forEach_close rest (ws_close client s)
      in (Close client 1000 ''Server shutting down'' # es, s'))"

definition shutdown :: "server \<Rightarrow> effect list \<times> server" where
  "shutdown s =
     (let (es, s') = forEach_close (wss_clients s) s
      in (es @ [ServerClose, SetTimeout 10000 ForcedShutdown], s'))"

text \<open>The callback of \<^verbatim>\<open>server.close\<close>, run when the listener has drained.\<close>

definition server_closed :: "server \<Rightarrow> effect list \<times> server" where
  "server_closed s = ([Exit 0], s)"

definition on_uncaughtException :: "server \<Rightarrow> effect list \<times> server" where
  "on_uncaughtException s = shutdown s"

definition on_unhandledRejection :: "server \<Rightarrow> effect list \<times> server" where
  "on_unhandledRejection s = ([], s)"

text \<open>A timer fires: the payment callback of line 208 or the forced exit of line 392.\<close>

fun run_timer :: "timer_cb \<Rightarrow> clock \<Rightarrow> clock \<Rightarrow> server \<Rightarrow> effect list \<times> server" where
  "run_timer (PaymentCompletion message) clk1 clk2 s = (payment_completion message clk1 clk2 s, s)"
| "run_timer ForcedShutdown clk1 clk2 s = ([Exit 1], s)"

section \<open>The event loop\<close>

text \<open>
  One event at a time. The library emits \<^verbatim>\<open>'message'\<close>, \<^verbatim>\<open>'pong'\<close>, \<^verbatim>\<open>'error'\<close> and
  \<^verbatim>\<open>'close'\<close> for a socket it tracks; with \<^verbatim>\<open>'close'\<close> the socket leaves \<^verbatim>\<open>wss.clients\<close>
  first. \<open>LinkFailure\<close> is the network breaking a link the server still takes as open. An
  error that the sweep throws is caught by nothing and reaches the handler of line 402.
\<close>

datatype event =
    Connection string clock clock
  | Message conn "js_error + jsval" int clock
  | CloseEvent conn
  | ErrorEvent conn
  | PongEvent conn int
  | LinkFailure conn
  | PingInterval
  | StaleInterval int
  | Timeout timer_cb clock clock
  | Signal
  | UncaughtException
  | UnhandledRejection
  | ServerClosed

fun step :: "event \<Rightarrow> server \<Rightarrow> effect list \<times> server" where
  "step (Connection clientIP clk clk') s =
     (let (ws, s') = accept s in on_connection ws clientIP clk clk' s')"
| "step (Message ws parsed t clk) s =
     (if ws \<in> set (wss_clients s) then on_message ws parsed t clk s else ([], s))"
| "step (CloseEvent ws) s =
     (if ws \<in> set (wss_clients s) then on_close ws (socket_closed ws s) else ([], s))"
| "step (ErrorEvent ws) s = (if ws \<in> set (wss_clients s) then on_error ws s else ([], s))"
| "step (PongEvent ws t) s = (if ws \<in> set (wss_clients s) then on_pong ws t s else ([], s))"
| "step (LinkFailure ws) s = ([], s\<lparr>broken := (broken s)(ws := True)\<rparr>)"
| "step PingInterval s = ping_interval s"
| "step (StaleInterval t) s =
     (case stale_interval t s of
        (es, s', thrown) \<Rightarrow>
          (case thrown of
             None \<Rightarrow> (es, s')
           | Some error \<Rightarrow> (es @ fst (on_uncaughtException s'), snd (on_uncaughtException s'))))"
| "step (Timeout cb clk1 clk2) s = run_timer cb clk1 clk2 s"
| "step Signal s = shutdown s"
| "step UncaughtException s = on_uncaughtException s"
| "step UnhandledRejection s = on_unhandledRejection s"
| "step ServerClosed s = server_closed s"

fun run :: "event list \<Rightarrow> server \<Rightarrow> server" where
  "run [] s = s"
| "run (e # es) s = run es (snd (step e s))"

section \<open>Notions used by the properties\<close>

text \<open>The clients a broadcast sends to: those of \<^verbatim>\<open>wss.clients\<close> that pass the test \<open>p\<close> and are
  open.\<close>

definition recipients :: "(conn \<Rightarrow> bool) \<Rightarrow> server \<Rightarrow> conn list" where
  "recipients p s = filter (\<lambda>client. p client \<and> readyState s client = 1) (wss_clients s)"

text \<open>The values of \<^verbatim>\<open>message.type\<close> that have a \<^verbatim>\<open>case\<close> of their own.\<close>

definition handled_types :: "jsval list" where
  "handled_types = [JStr ''esp32_connected'', JStr ''web_connected'', JStr ''rfid_scan'',
     JStr ''payment_request'', JStr ''ping'']"

text \<open>The socket and the value of an effect, when it is a send.\<close>

fun sent_to :: "effect \<Rightarrow> (conn \<times> jsval) option" where
  "sent_to (Send c v) = Some (c, v)"
| "sent_to (SendFailed c v) = Some (c, v)"
| "sent_to e = None"

text \<open>The effects that are not a send to socket \<open>x\<close>.\<close>

definition not_to :: "conn \<Rightarrow> effect list \<Rightarrow> effect list" where
  "not_to x es = filter (\<lambda>e. map_option fst (sent_to e) \<noteq> Some x) es"

text \<open>A value with no infinity and no \<^verbatim>\<open>undefined\<close> in it: every number of the text it was
  parsed from was within the range of doubles.\<close>

fun in_range :: "jsval \<Rightarrow> bool" where
  "in_range JUndefined = False"
| "in_range (JInfinity neg) = False"
| "in_range (JArr xs) = list_all in_range xs"
| "in_range (JObj kvs) = list_all (\<lambda>p. in_range (snd p)) kvs"
| "in_range v = True"

text \<open>
  Well-formed states: \<^verbatim>\<open>wss.clients\<close> is a set, a record belongs to a tracked socket, and a
  tracked socket is older than the next handle.
\<close>

definition wf :: "server \<Rightarrow> bool" where
  "wf s \<longleftrightarrow>
     distinct (wss_clients s) \<and>
     set (map fst (clients s)) \<subseteq> set (wss_clients s) \<and>
     list_all (\<lambda>c. c < next_conn s) (wss_clients s)"

text \<open>A state with a scan device (socket 0, last heard at 1000), an open web client (1), a
  socket that has not announced itself (2) and a web client that is closing (3).\<close>

definition example :: server where
  "example =
     \<lparr>NODE_ENV = ''test'', wss_clients = [0, 1, 2, 3],
      readyState = (\<lambda>c. if c = 3 then 2 else if c < 3 then 1 else 3),
      broken = (\<lambda>c. False),
      clients =
        [(0, \<lparr>ip = ''10.0.0.1'', connected_at = ''T0'', type = esp32, device_id = JStr ''D1'',
               lastPing = 1000\<rparr>),
         (1, \<lparr>ip = ''10.0.0.2'', connected_at = ''T1'', type = web, device_id = JNull,
               lastPing = 200000\<rparr>),
         (2, \<lparr>ip = ''10.0.0.3'', connected_at = ''T2'', type = unknown, device_id = JNull,
               lastPing = 200000\<rparr>),
         (3, \<lparr>ip = ''10.0.0.4'', connected_at = ''T3'', type = web, device_id = JNull,
               lastPing = 200000\<rparr>)],
      next_conn = 4\<rparr>"

definition noon :: clock where
  "noon = \<lparr>now = 200001, iso = ''2025-01-01T12:00:00.000Z''\<rparr>"

text \<open>An object that has no string conversion: \<^verbatim>\<open>{"toString":1}\<close>.\<close>

definition unprintable :: jsval where
  "unprintable = JObj [(''toString'', JNum 1)]"

text \<open>The event that the \<^verbatim>\<open>catch\<close> sends when a log throws \<open>cannot_convert\<close>.\<close>

definition conversion_error :: jsval where
  "conversion_error =
     JObj [(''type'', JStr ''error''), (''message'', JStr ''Invalid message format''),
           (''error'', JStr ''Cannot convert object to primitive value'')]"

text \<open>The type that a message declares: the two cases of the \<^verbatim>\<open>switch\<close> that assign
  \<^verbatim>\<open>clientData.type\<close>.\<close>

definition declared_type :: "jsval \<Rightarrow> client_type option" where
  "declared_type message =
     (if js_get message ''type'' = JStr ''esp32_connected'' then Some esp32
      else if js_get message ''type'' = JStr ''web_connected'' then Some web else None)"

text \<open>The type of a record after an event, given its type before, for a socket \<open>c\<close> that
  keeps its record: only a message from \<open>c\<close> that declares a type changes it.\<close>

fun type_after :: "event \<Rightarrow> conn \<Rightarrow> client_type \<Rightarrow> client_type" where
  "type_after (Message ws (Inr message) t clk) c r =
     (if ws = c \<and> message \<noteq> JNull \<and> message \<noteq> JUndefined
      then (case declared_type message of None \<Rightarrow> r | Some r' \<Rightarrow> r') else r)"
| "type_after e c r = r"

text \<open>A history: a socket connects and announces itself as a scan device.\<close>

definition device_history :: "event list" where
  "device_history =
     [Connection ''10.0.0.1'' noon noon,
      Message 0 (Inr (JObj [(''type'', JStr ''esp32_connected'')])) 5 noon]"

text \<open>The test of line 355 on an entry of \<^verbatim>\<open>clients\<close>, at time \<open>t\<close>.\<close>

definition stale :: "int \<Rightarrow> (conn \<times> client_data) \<Rightarrow> bool" where
  "stale t p = (t - lastPing (snd p) > 120000)"

section \<open>Facts about the helpers\<close>

lemma forEach_send_eq:
  "forEach_send p s m cs =
     (map (\<lambda>c. ws_send s c m) (filter (\<lambda>c. p c \<and> readyState s c = 1) cs),
      length (filter (\<lambda>c. p c \<and> readyState s c = 1) cs))"
  by (induction cs) (auto split: prod.splits)

lemma broadcastToAll_eq:
  "broadcastToAll s m sender =
     (map (\<lambda>c. ws_send s c (JSON_stringify m)) (recipients (\<lambda>c. Some c \<noteq> sender) s),
      length (recipients (\<lambda>c. Some c \<noteq> sender) s))"
  by (simp add: broadcastToAll_def forEach_send_eq recipients_def)

lemma broadcastToESP32_eq:
  "broadcastToESP32 s m =
     (map (\<lambda>c. ws_send s c (JSON_stringify m)) (recipients (has_type s esp32) s),
      length (recipients (has_type s esp32) s))"
  by (simp add: broadcastToESP32_def forEach_send_eq recipients_def)

lemma broadcastToWeb_eq:
  "broadcastToWeb s m =
     (map (\<lambda>c. ws_send s c (JSON_stringify m)) (recipients (has_type s web) s),
      length (recipients (has_type s web) s))"
  by (simp add: broadcastToWeb_def forEach_send_eq recipients_def)

lemma update_metadata_frame [simp]:
  "wss_clients (update_metadata ws m t s) = wss_clients s"
  "readyState (update_metadata ws m t s) = readyState s"
  "broken (update_metadata ws m t s) = broken s"
  "next_conn (update_metadata ws m t s) = next_conn s"
  "NODE_ENV (update_metadata ws m t s) = NODE_ENV s"
  by (auto simp: update_metadata_def split: option.splits)

lemma set_type_frame [simp]:
  "wss_clients (set_type ws r s) = wss_clients s"
  "readyState (set_type ws r s) = readyState s"
  "broken (set_type ws r s) = broken s"
  "next_conn (set_type ws r s) = next_conn s"
  "NODE_ENV (set_type ws r s) = NODE_ENV s"
  by (auto simp: set_type_def split: option.splits)

lemma ws_send_cong:
  "readyState s = readyState s' \<Longrightarrow> broken s = broken s' \<Longrightarrow> ws_send s = ws_send s'"
  by (auto simp: ws_send_def fun_eq_iff)

lemma recipients_cong:
  "wss_clients s = wss_clients s' \<Longrightarrow> readyState s = readyState s' \<Longrightarrow>
   (\<And>c. c \<in> set (wss_clients s') \<Longrightarrow> p c = q c) \<Longrightarrow> recipients p s = recipients q s'"
  by (auto simp: recipients_def cong: filter_cong)

lemma distinct_recipients: "distinct (wss_clients s) \<Longrightarrow> distinct (recipients p s)"
  by (simp add: recipients_def)

lemma length_recipients:
  "distinct (wss_clients s) \<Longrightarrow>
   length (recipients p s) = card {c \<in> set (wss_clients s). p c \<and> readyState s c = 1}"
  unfolding recipients_def by (simp add: distinct_length_filter Int_def conj_commute)

lemma set_recipients [simp]:
  "set (recipients p s) = {c \<in> set (wss_clients s). p c \<and> readyState s c = 1}"
  by (auto simp: recipients_def)

lemma sent_to_ws_send [simp]: "sent_to (ws_send s c v) = Some (c, v)"
  by (simp add: ws_send_def)

lemma stringify_in_range:
  "in_range v \<Longrightarrow> JSON_stringify v = v"
  "list_all in_range xs \<Longrightarrow> stringify_elements xs = xs"
  "list_all (\<lambda>p. in_range (snd p)) kvs \<Longrightarrow> stringify_properties kvs = kvs"
  by (induction v and xs and kvs rule: JSON_stringify_stringify_elements_stringify_properties.induct)
     auto

lemma keys_stringify_properties:
  "list_all (\<lambda>p. snd p \<noteq> JUndefined) kvs \<Longrightarrow> map fst (stringify_properties kvs) = map fst kvs"
  by (induction kvs) auto

lemma stringify_error_event [simp]:
  "JSON_stringify (error_event error) =
     JObj [(''type'', JStr ''error''), (''message'', JStr ''Invalid message format''),
           (''error'', JStr (error_message error))]"
  by (simp add: error_event_def)

lemma example_send: "c < 3 \<Longrightarrow> ws_send example c v = Send c v"
  by (simp add: ws_send_def example_def)

lemma printable_unprintable [simp]: "\<not> printable unprintable"
  by (simp add: unprintable_def)

lemma error_message_cannot_convert [simp]:
  "error_message cannot_convert = ''Cannot convert object to primitive value''"
  by (simp add: cannot_convert_def)

section \<open>Malformed payloads\<close>



section \<open>The default case\<close>

text \<open>
  C8, as amended. A message that is not \<^verbatim>\<open>null\<close>, whose \<^verbatim>\<open>type\<close> is printable and is none
  of the five handled ones, is sent as \<^verbatim>\<open>JSON.stringify\<close> writes it to each open socket of
  \<^verbatim>\<open>wss.clients\<close> other than the sender, once, and to no other; the count that
  \<open>broadcastToAll\<close> returns is the number of open sockets other than the sender. What is
  written is the parsed message itself when every number in it was in range; in any case
  an object keeps all its keys, in order, and gets none.
\<close>

theorem default_case_fanout:
  assumes "message \<noteq> JNull" and "message \<noteq> JUndefined"
    and "printable (js_get message ''type'')"
    and "js_get message ''type'' \<notin> set handled_types"
    and "distinct (wss_clients s)"
  shows "fst (on_message ws (Inr message) t clk s) =
           map (\<lambda>c. ws_send s c (JSON_stringify message)) (recipients (\<lambda>c. c \<noteq> ws) s) \<and>
         distinct (recipients (\<lambda>c. c \<noteq> ws) s) \<and>
         snd (broadcastToAll (update_metadata ws message t s) message (Some ws)) =
           card {c \<in> set (wss_clients s). c \<noteq> ws \<and> readyState s c = 1} \<and>
         (in_range message \<longrightarrow> JSON_stringify message = message) \<and>
         (\<forall>kvs. message = JObj kvs \<and> list_all (\<lambda>p. snd p \<noteq> JUndefined) kvs \<longrightarrow>
            (\<exists>kvs'. JSON_stringify message = JObj kvs' \<and> map fst kvs' = map fst kvs))"
proof -
  let ?s' = "update_metadata ws message t s"
  have r: "recipients (\<lambda>c. c \<noteq> ws) ?s' = recipients (\<lambda>c. c \<noteq> ws) s"
    by (rule recipients_cong) simp_all
  have w: "ws_send ?s' = ws_send s"
    by (rule ws_send_cong) simp_all
  have "fst (on_message ws (Inr message) t clk s) = fst (broadcastToAll ?s' message (Some ws))"
    using assms(1-4) by (simp add: on_message_def switch_type_def handled_types_def)
  then show ?thesis
    using assms(5)
    by (simp add: broadcastToAll_eq r w distinct_recipients length_recipients stringify_in_range
        keys_stringify_properties del: set_recipients)
qed

theorem default_case_fanout_witness:
  "JObj [(''type'', JStr ''hello''), (''n'', JNum 7)] \<noteq> JNull \<and>
   printable (js_get (JObj [(''type'', JStr ''hello''), (''n'', JNum 7)]) ''type'') \<and>
   js_get (JObj [(''type'', JStr ''hello''), (''n'', JNum 7)]) ''type'' \<notin> set handled_types \<and>
   distinct (wss_clients example) \<and>
   in_range (JObj [(''type'', JStr ''hello''), (''n'', JNum 7)]) \<and>
   fst (on_message 0 (Inr (JObj [(''type'', JStr ''hello''), (''n'', JNum 7)])) 5 noon example) =
     [Send 1 (JObj [(''type'', JStr ''hello''), (''n'', JNum 7)]),
      Send 2 (JObj [(''type'', JStr ''hello''), (''n'', JNum 7)])] \<and>
   snd (broadcastToAll (update_metadata 0 (JObj [(''type'', JStr ''hello''), (''n'', JNum 7)]) 5 example)
          (JObj [(''type'', JStr ''hello''), (''n'', JNum 7)]) (Some 0)) = 2"
proof -
  let ?m = "JObj [(''type'', JStr ''hello''), (''n'', JNum 7)]"
  have h1: "?m \<noteq> JNull" and h2: "?m \<noteq> JUndefined" by simp_all
  have h3: "printable (js_get ?m ''type'')" by simp
  have h4: "js_get ?m ''type'' \<notin> set handled_types" by (simp add: handled_types_def)
  have h5: "distinct (wss_clients example)" by (simp add: example_def)
  have h6: "in_range ?m" by simp
  have c: "{c \<in> set (wss_clients example). c \<noteq> 0 \<and> readyState example c = 1} = {1, 2}"
    by (auto simp: example_def)
  have r: "recipients (\<lambda>c. c \<noteq> 0) example = [1, 2]"
    by (simp add: recipients_def example_def)
  note T = default_case_fanout [OF h1 h2 h3 h4 h5, of 0 5 noon]
  from T h6 have s: "JSON_stringify ?m = ?m" by blast
  from T have "fst (on_message 0 (Inr ?m) 5 noon example) =
      map (\<lambda>c. ws_send example c (JSON_stringify ?m)) (recipients (\<lambda>c. c \<noteq> 0) example)"
    by blast
  then have "fst (on_message 0 (Inr ?m) 5 noon example) = [Send 1 ?m, Send 2 ?m]"
    by (simp only: r s) (simp add: example_send)
  moreover from T have "snd (broadcastToAll (update_metadata 0 ?m 5 example) ?m (Some 0)) =
      card {c \<in> set (wss_clients example). c \<noteq> 0 \<and> readyState example c = 1}"
    by blast
  then have "snd (broadcastToAll (update_metadata 0 ?m 5 example) ?m (Some 0)) = 2"
    by (simp only: c) simp
  ultimately show ?thesis
    using h1 h3 h4 h5 h6 by blast
qed

text \<open>
  C8 as stated fails twice. The type \<^verbatim>\<open>{"toString":1}\<close> is none of the handled ones, but
  line 140 throws on it: the sender gets an error event and nothing is sent on. And a
  message with the number \<^verbatim>\<open>1e999\<close>, which parses to infinity, is sent on with \<^verbatim>\<open>null\<close> in
  its place.
\<close>

theorem relay_counterexample:
  "js_get (JObj [(''type'', unprintable)]) ''type'' \<notin> set handled_types \<and>
   fst (on_message 0 (Inr (JObj [(''type'', unprintable)])) 5 noon example) = [Send 0 conversion_error] \<and>
   js_get (JObj [(''type'', JStr ''hello''), (''n'', JInfinity False)]) ''type'' \<notin> set handled_types \<and>
   fst (on_message 0 (Inr (JObj [(''type'', JStr ''hello''), (''n'', JInfinity False)])) 5 noon example) =
     [Send 1 (JObj [(''type'', JStr ''hello''), (''n'', JNull)]),
      Send 2 (JObj [(''type'', JStr ''hello''), (''n'', JNull)])]"
  by (simp add: on_message_def switch_type_def broadcastToAll_eq recipients_def Let_def
      catch_block_def handled_types_def unprintable_def)
     (simp add: example_def ws_send_def conversion_error_def)

lemma payment_completion_eq:
  "payment_completion message clk1 clk2 s =
     map (\<lambda>c. ws_send s c (JSON_stringify (payment_success message clk1)))
       (recipients (has_type s esp32) s) @
     map (\<lambda>c. ws_send s c (JSON_stringify (payment_success message clk2)))
       (recipients (has_type s web) s)"
  by (simp add: payment_completion_def broadcastToESP32_eq broadcastToWeb_eq)

lemma payment_success_type [simp]:
  "js_get (JSON_stringify (payment_success message clk)) ''type'' = JStr ''payment_success''"
  by (simp add: payment_success_def)

section \<open>The payment request\<close>

text \<open>
  C10. When the timer of a payment request fires, the callback takes the first branch:
  \<open>success\<close> is the constant \<^verbatim>\<open>true\<close>. Every effect of the callback is a send of a
  \<^verbatim>\<open>payment_success\<close> event (to the open scan devices, then to the open web clients), and
  none carries a \<^verbatim>\<open>payment_failed\<close> event.
\<close>

theorem completion_always_success:
  "fst (run_timer (PaymentCompletion message) clk1 clk2 s) =
     map (\<lambda>c. ws_send s c (JSON_stringify (payment_success message clk1)))
       (recipients (has_type s esp32) s) @
     map (\<lambda>c. ws_send s c (JSON_stringify (payment_success message clk2)))
       (recipients (has_type s web) s) \<and>
   (\<forall>e \<in> set (fst (run_timer (PaymentCompletion message) clk1 clk2 s)).
      \<exists>c v. sent_to e = Some (c, v) \<and> js_get v ''type'' = JStr ''payment_success'' \<and>
        js_get v ''type'' \<noteq> JStr ''payment_failed'')"
  by (auto simp: payment_completion_eq)

lemma example_esp32: "recipients (has_type example esp32) example = [0]"
  by (simp add: recipients_def example_def has_type_def)

lemma example_web: "recipients (has_type example web) example = [1]"
  by (simp add: recipients_def example_def has_type_def)

theorem completion_always_success_witness:
  "fst (run_timer (PaymentCompletion (JObj [(''type'', JStr ''payment_request''), (''amount'', JNum 50)]))
         noon noon example) =
     [Send 0 (JSON_stringify
        (payment_success (JObj [(''type'', JStr ''payment_request''), (''amount'', JNum 50)]) noon)),
      Send 1 (JSON_stringify
        (payment_success (JObj [(''type'', JStr ''payment_request''), (''amount'', JNum 50)]) noon))] \<and>
   (\<exists>c v. sent_to (Send 0 (JSON_stringify
             (payment_success (JObj [(''type'', JStr ''payment_request''), (''amount'', JNum 50)]) noon)))
             = Some (c, v) \<and> js_get v ''type'' = JStr ''payment_success'' \<and>
             js_get v ''type'' \<noteq> JStr ''payment_failed'')"
proof -
  let ?m = "JObj [(''type'', JStr ''payment_request''), (''amount'', JNum 50)]"
  let ?v = "JSON_stringify (payment_success ?m noon)"
  note T = completion_always_success [of ?m noon noon example]
  have l: "fst (run_timer (PaymentCompletion ?m) noon noon example) = [Send 0 ?v, Send 1 ?v]"
    using T by (simp add: example_esp32 example_web example_send)
  have "Send 0 ?v \<in> set (fst (run_timer (PaymentCompletion ?m) noon noon example))"
    by (simp only: l) simp
  with T have "\<exists>c v. sent_to (Send 0 ?v) = Some (c, v) \<and>
      js_get v ''type'' = JStr ''payment_success'' \<and> js_get v ''type'' \<noteq> JStr ''payment_failed''"
    by blast
  with l show ?thesis by blast
qed

text \<open>A \<^verbatim>\<open>payment_request\<close> whose \<^verbatim>\<open>amount\<close> and \<^verbatim>\<open>rfid_uid\<close> are printable registers the
  callback with a delay of 1000 and sends nothing.\<close>

lemma payment_request_printable:
  assumes "js_get message ''type'' = JStr ''payment_request''"
    and "printable (js_get message ''amount'')" and "printable (js_get message ''rfid_uid'')"
  shows "on_message ws (Inr message) t clk s =
           ([SetTimeout 1000 (PaymentCompletion message)], update_metadata ws message t s)"
proof -
  from assms(1) have "message \<noteq> JNull" "message \<noteq> JUndefined" by auto
  with assms show ?thesis
    by (simp add: on_message_def switch_type_def)
qed

text \<open>
  C1. The claim fails on one input. For the \<^verbatim>\<open>payment_request\<close> whose \<^verbatim>\<open>amount\<close> is
  \<^verbatim>\<open>{"toString":1}\<close>, the log of line 205 throws before \<^verbatim>\<open>setTimeout\<close>: the only effect is
  the error event sent at once to the sender, socket 1, no timer is registered and no
  result is ever broadcast. With the \<^verbatim>\<open>amount\<close> 50 the only effect is the timer.
\<close>

theorem payment_request_log_throws:
  "js_get (JObj [(''type'', JStr ''payment_request''), (''amount'', unprintable)]) ''type'' =
     JStr ''payment_request'' \<and>
   fst (on_message 1 (Inr (JObj [(''type'', JStr ''payment_request''), (''amount'', unprintable)]))
          5 noon example) = [Send 1 conversion_error] \<and>
   fst (on_message 1 (Inr (JObj [(''type'', JStr ''payment_request''), (''amount'', JNum 50)]))
          5 noon example) =
     [SetTimeout 1000 (PaymentCompletion (JObj [(''type'', JStr ''payment_request''), (''amount'', JNum 50)]))]"
  by (simp add: on_message_def switch_type_def catch_block_def Let_def update_metadata_def
      conversion_error_def)
     (simp add: example_def ws_send_def)

lemma map_of_update_metadata:
  "map_of (clients (update_metadata ws m t s)) =
     (case map_of (clients s) ws of
        None \<Rightarrow> map_of (clients s)
      | Some d \<Rightarrow> (map_of (clients s))(ws \<mapsto> d\<lparr>lastPing := t,
            device_id := (if truthy (js_get m ''device_id'') then js_get m ''device_id'' else device_id d)\<rparr>))"
  by (simp add: update_metadata_def update_conv' split: option.splits)

lemma map_of_set_type:
  "map_of (clients (set_type ws r s)) =
     (case map_of (clients s) ws of
        None \<Rightarrow> map_of (clients s)
      | Some d \<Rightarrow> (map_of (clients s))(ws \<mapsto> d\<lparr>type := r\<rparr>))"
  by (simp add: set_type_def update_conv' split: option.splits)

lemma has_type_update_metadata [simp]:
  "has_type (update_metadata ws m t s) r c = has_type s r c"
  by (auto simp: has_type_def map_of_update_metadata split: option.splits)

lemma has_type_set_type:
  "has_type (set_type ws r s) r' c =
     (if c = ws \<and> map_of (clients s) ws \<noteq> None then r' = r else has_type s r' c)"
  by (auto simp: has_type_def map_of_set_type split: option.splits)

lemma switch_type_state:
  "fst (snd (switch_type ws message clk s)) =
     (case declared_type message of None \<Rightarrow> s | Some r \<Rightarrow> set_type ws r s)"
  by (simp add: switch_type_def declared_type_def Let_def)

lemma snd_on_message:
  assumes "message \<noteq> JNull" and "message \<noteq> JUndefined"
  shows "snd (on_message ws (Inr message) t clk s) =
     (if printable (js_get message ''type'')
      then (case declared_type message of
              None \<Rightarrow> update_metadata ws message t s
            | Some r \<Rightarrow> set_type ws r (update_metadata ws message t s))
      else s)"
proof -
  obtain es s' thrown where sw:
    "switch_type ws message clk (update_metadata ws message t s) = (es, s', thrown)"
    by (cases "switch_type ws message clk (update_metadata ws message t s)")
  then have "s' = fst (snd (switch_type ws message clk (update_metadata ws message t s)))"
    by simp
  then have "s' = (case declared_type message of
              None \<Rightarrow> update_metadata ws message t s
            | Some r \<Rightarrow> set_type ws r (update_metadata ws message t s))"
    by (simp only: switch_type_state)
  with assms sw show ?thesis
    by (simp add: on_message_def catch_block_def split: option.splits)
qed

section \<open>Announcing a scan device\<close>

text \<open>An \<^verbatim>\<open>esp32_connected\<close> message with a printable \<^verbatim>\<open>device_id\<close>, from a socket that has
  a record, sets the record's type to \<open>esp32\<close>, sends the confirmation to that socket and the
  status event to each open socket whose record has type \<open>web\<close>, the sender excepted.\<close>

lemma esp32_connected_printable:
  assumes "js_get message ''type'' = JStr ''esp32_connected''"
    and "printable (js_get message ''device_id'')"
    and "map_of (clients s) ws = Some d"
  shows "(let (es, s') = on_message ws (Inr message) t clk s
          in map_option type (map_of (clients s') ws) = Some esp32 \<and>
             es = ws_send s ws (JObj [(''type'', JStr ''connection_confirmed''),
                                      (''message'', JStr ''ESP32 connected successfully''),
                                      (''server_time'', JStr (iso clk))])
                  # map (\<lambda>c. ws_send s c
                            (JSON_stringify (esp32_status ''connected'' (js_get message ''device_id''))))
                      (recipients (has_type s' web) s') \<and>
             set (recipients (has_type s' web) s') =
               {c \<in> set (wss_clients s). c \<noteq> ws \<and> has_type s web c \<and> readyState s c = 1})"
proof -
  let ?s1 = "update_metadata ws message t s"
  let ?s2 = "set_type ws esp32 ?s1"
  from assms(1) have nn: "message \<noteq> JNull" "message \<noteq> JUndefined" by auto
  have om: "on_message ws (Inr message) t clk s =
      (ws_send ?s2 ws (JObj [(''type'', JStr ''connection_confirmed''),
                               (''message'', JStr ''ESP32 connected successfully''),
                               (''server_time'', JStr (iso clk))])
       # fst (broadcastToWeb ?s2 (esp32_status ''connected'' (js_get message ''device_id''))), ?s2)"
    using assms(1,2) nn by (simp add: on_message_def switch_type_def Let_def)
  have w: "ws_send ?s2 = ws_send s" by (rule ws_send_cong) simp_all
  have rec: "map_of (clients ?s1) ws \<noteq> None"
    using assms(3) by (simp add: map_of_update_metadata)
  have ht: "has_type ?s2 web c = (c \<noteq> ws \<and> has_type s web c)" for c
    using rec by (auto simp: has_type_set_type)
  have role: "map_option type (map_of (clients ?s2) ws) = Some esp32"
    using rec by (auto simp: map_of_set_type)
  show ?thesis
    unfolding om using role by (auto simp: broadcastToWeb_eq w ht)
qed

text \<open>
  C7. The claim fails on one input. For the \<^verbatim>\<open>esp32_connected\<close> message from socket 2 whose
  \<^verbatim>\<open>device_id\<close> is \<^verbatim>\<open>{"toString":1}\<close>, line 155 sets the record's type to \<open>esp32\<close> and then
  the log of line 156 throws: the only effect is the error event to socket 2, with no
  confirmation and no status event for web client 1. With the \<^verbatim>\<open>device_id\<close> \<^verbatim>\<open>D2\<close> socket 2
  gets the confirmation and web client 1 the status event with \<^verbatim>\<open>status\<close> connected and the
  \<^verbatim>\<open>device_id\<close>.
\<close>

theorem esp32_connected_log_throws:
  "js_get (JObj [(''type'', JStr ''esp32_connected''), (''device_id'', unprintable)]) ''type'' =
     JStr ''esp32_connected'' \<and>
   fst (on_message 2 (Inr (JObj [(''type'', JStr ''esp32_connected''), (''device_id'', unprintable)]))
          5 noon example) = [Send 2 conversion_error] \<and>
   map_option type (map_of (clients (snd (on_message 2
       (Inr (JObj [(''type'', JStr ''esp32_connected''), (''device_id'', unprintable)])) 5 noon example))) 2)
     = Some esp32 \<and>
   fst (on_message 2 (Inr (JObj [(''type'', JStr ''esp32_connected''), (''device_id'', JStr ''D2'')]))
          5 noon example) =
     [Send 2 (JObj [(''type'', JStr ''connection_confirmed''),
                    (''message'', JStr ''ESP32 connected successfully''),
                    (''server_time'', JStr ''2025-01-01T12:00:00.000Z'')]),
      Send 1 (JObj [(''type'', JStr ''esp32_status''), (''status'', JStr ''connected''),
                    (''device_id'', JStr ''D2'')])]"
  by (simp add: on_message_def switch_type_def catch_block_def Let_def update_metadata_def
      set_type_def conversion_error_def broadcastToWeb_eq recipients_def esp32_status_def
      has_type_def update_conv' noon_def)
     (simp add: example_def ws_send_def unprintable_def)

section \<open>Metadata update on a message\<close>

text \<open>
  C6, as amended. For a message that parsed to something other than \<^verbatim>\<open>null\<close>, whose \<^verbatim>\<open>type\<close>
  is printable, and that comes from a socket with a record: \<open>lastPing\<close> becomes the time of
  arrival, and \<open>device_id\<close> becomes the message's \<^verbatim>\<open>device_id\<close> when that value is truthy;
  when the message has no \<^verbatim>\<open>device_id\<close> or a falsy one (\<^verbatim>\<open>null\<close>, \<^verbatim>\<open>false\<close>, \<^verbatim>\<open>0\<close>, the
  empty string) the record keeps the \<open>device_id\<close> it had. This holds also when a later log
  of the \<^verbatim>\<open>switch\<close> throws.
\<close>

theorem message_refreshes_metadata:
  assumes "message \<noteq> JNull" and "message \<noteq> JUndefined"
    and "printable (js_get message ''type'')"
    and "map_of (clients s) ws = Some d"
  shows "\<exists>d'. map_of (clients (snd (on_message ws (Inr message) t clk s))) ws = Some d' \<and>
              lastPing d' = t \<and>
              device_id d' = (if truthy (js_get message ''device_id'')
                              then js_get message ''device_id'' else device_id d)"
  using assms
  by (auto simp: snd_on_message map_of_set_type map_of_update_metadata split: option.splits)

theorem message_refreshes_metadata_witness:
  "JObj [(''type'', JStr ''ping''), (''device_id'', JStr ''D9'')] \<noteq> JNull \<and>
   printable (js_get (JObj [(''type'', JStr ''ping''), (''device_id'', JStr ''D9'')]) ''type'') \<and>
   map_option lastPing (map_of (clients example) 0) = Some 1000 \<and>
   map_option device_id (map_of (clients example) 0) = Some (JStr ''D1'') \<and>
   map_option lastPing (map_of (clients (snd (on_message 0
      (Inr (JObj [(''type'', JStr ''ping''), (''device_id'', JStr ''D9'')])) 5 noon example))) 0) = Some 5 \<and>
   map_option device_id (map_of (clients (snd (on_message 0
      (Inr (JObj [(''type'', JStr ''ping''), (''device_id'', JStr ''D9'')])) 5 noon example))) 0)
     = Some (JStr ''D9'')"
proof -
  let ?m = "JObj [(''type'', JStr ''ping''), (''device_id'', JStr ''D9'')]"
  let ?d = "\<lparr>ip = ''10.0.0.1'', connected_at = ''T0'', type = esp32, device_id = JStr ''D1'',
               lastPing = 1000\<rparr>"
  have h1: "?m \<noteq> JNull" and h2: "?m \<noteq> JUndefined" by simp_all
  have h3: "printable (js_get ?m ''type'')" by simp
  have h4: "map_of (clients example) 0 = Some ?d" by (simp add: example_def)
  from message_refreshes_metadata [OF h1 h2 h3 h4, of 5 noon]
  obtain d' where "map_of (clients (snd (on_message 0 (Inr ?m) 5 noon example))) 0 = Some d'"
    and "lastPing d' = 5" and "device_id d' = JStr ''D9''"
    by auto
  with h1 h3 h4 show ?thesis by simp
qed

text \<open>
  C6 as stated fails: a \<^verbatim>\<open>ping\<close> that carries \<^verbatim>\<open>device_id\<close> as the empty string leaves the
  record's \<open>device_id\<close> at \<^verbatim>\<open>D1\<close>, because line 147 tests the value for truth.
\<close>

theorem falsy_device_id_counterexample:
  "js_get (JObj [(''type'', JStr ''ping''), (''device_id'', JStr [])]) ''device_id'' = JStr [] \<and>
   map_option device_id (map_of (clients example) 0) = Some (JStr ''D1'') \<and>
   map_option device_id (map_of (clients (snd (on_message 0
      (Inr (JObj [(''type'', JStr ''ping''), (''device_id'', JStr [])])) 5 noon example))) 0)
     = Some (JStr ''D1'') \<and>
   map_option device_id (map_of (clients (snd (on_message 0
      (Inr (JObj [(''type'', JStr ''ping''), (''device_id'', JStr [])])) 5 noon example))) 0)
     \<noteq> Some (JStr [])"
  by (simp add: snd_on_message declared_type_def map_of_update_metadata) (simp add: example_def)

section \<open>Delivery failures in a broadcast\<close>

lemma recipients_broken [simp]: "recipients p (s\<lparr>broken := b\<rparr>) = recipients p s"
  by (simp add: recipients_def)

lemma has_type_broken [simp]: "has_type (s\<lparr>broken := b\<rparr>) = has_type s"
  by (simp add: has_type_def fun_eq_iff)

lemma has_type_readyState [simp]: "has_type (s\<lparr>readyState := f\<rparr>) = has_type s"
  by (simp add: has_type_def fun_eq_iff)

lemma map_ws_send_recipients:
  "map (\<lambda>c. ws_send (s\<lparr>broken := b\<rparr>) c m) (recipients p s) =
   map (\<lambda>c. if b c then SendFailed c m else Send c m) (recipients p s)"
  by (rule map_cong) (auto simp: ws_send_def)

lemma recipients_other_closed:
  "filter (\<lambda>c. c \<noteq> x) (recipients p (s\<lparr>readyState := (readyState s)(x := k)\<rparr>)) =
     filter (\<lambda>c. c \<noteq> x) (recipients p s)"
  by (auto simp: recipients_def intro: filter_cong)

lemma not_to_map_ws_send:
  "not_to x (map (\<lambda>c. ws_send s c v) cs) = map (\<lambda>c. ws_send s c v) (filter (\<lambda>c. c \<noteq> x) cs)"
  by (induction cs) (auto simp: not_to_def)

lemma not_to_sends_other_closed:
  "not_to x (map (\<lambda>c. ws_send (s\<lparr>readyState := (readyState s)(x := k)\<rparr>) c v)
              (recipients p (s\<lparr>readyState := (readyState s)(x := k)\<rparr>))) =
   not_to x (map (\<lambda>c. ws_send s c v) (recipients p s))"
proof -
  have "map (\<lambda>c. ws_send (s\<lparr>readyState := (readyState s)(x := k)\<rparr>) c v)
          (filter (\<lambda>c. c \<noteq> x) (recipients p s)) =
        map (\<lambda>c. ws_send s c v) (filter (\<lambda>c. c \<noteq> x) (recipients p s))"
    by (rule map_cong) (auto simp: ws_send_def)
  then show ?thesis
    by (simp only: not_to_map_ws_send recipients_other_closed)
qed

lemma update_metadata_broken:
  "update_metadata ws m t (s\<lparr>broken := b\<rparr>) = (update_metadata ws m t s)\<lparr>broken := b\<rparr>"
  by (simp add: update_metadata_def split: option.splits)

lemma set_type_broken:
  "set_type ws r (s\<lparr>broken := b\<rparr>) = (set_type ws r s)\<lparr>broken := b\<rparr>"
  by (simp add: set_type_def split: option.splits)

lemma sent_broadcast_broken:
  "map sent_to (fst (broadcastToWeb (s\<lparr>broken := b\<rparr>) m)) = map sent_to (fst (broadcastToWeb s m))"
  "map sent_to (fst (broadcastToESP32 (s\<lparr>broken := b\<rparr>) m)) = map sent_to (fst (broadcastToESP32 s m))"
  "map sent_to (fst (broadcastToAll (s\<lparr>broken := b\<rparr>) m sender)) =
     map sent_to (fst (broadcastToAll s m sender))"
  by (simp_all add: broadcastToWeb_eq broadcastToESP32_eq broadcastToAll_eq comp_def)

lemma switch_type_broken:
  "map sent_to (fst (switch_type ws m clk (s\<lparr>broken := b\<rparr>))) =
     map sent_to (fst (switch_type ws m clk s))"
  "snd (snd (switch_type ws m clk (s\<lparr>broken := b\<rparr>))) = snd (snd (switch_type ws m clk s))"
  by (simp_all add: switch_type_def Let_def set_type_broken sent_broadcast_broken)

lemma sent_on_message_broken:
  "map sent_to (fst (on_message ws parsed t clk (s\<lparr>broken := b\<rparr>))) =
     map sent_to (fst (on_message ws parsed t clk s))"
proof (cases parsed)
  case (Inl error)
  then show ?thesis by (simp add: on_message_def catch_block_def)
next
  case (Inr message)
  let ?s1 = "update_metadata ws message t s"
  obtain es s' thrown where sw: "switch_type ws message clk ?s1 = (es, s', thrown)"
    by (cases "switch_type ws message clk ?s1")
  obtain es2 s2 thrown2 where sw2:
    "switch_type ws message clk (?s1\<lparr>broken := b\<rparr>) = (es2, s2, thrown2)"
    by (cases "switch_type ws message clk (?s1\<lparr>broken := b\<rparr>)")
  from switch_type_broken [where ws = ws and m = message and clk = clk and s = ?s1 and b = b] sw sw2
  have e: "map sent_to es2 = map sent_to es" and t: "thrown2 = thrown" by simp_all
  show ?thesis
    using Inr sw sw2 e t
    by (simp add: on_message_def catch_block_def update_metadata_broken split: option.splits)
qed

text \<open>
  C3. Let \<open>b\<close> be any set of sockets whose link has failed. In each of the three helpers the
  sockets that \<^verbatim>\<open>send\<close> is called on, and the count returned, are the same whatever \<open>b\<close>
  is: every open socket that passes the helper's test gets its call, the call fails for
  those in \<open>b\<close> and goes out for the others. A socket \<open>x\<close> whose channel has closed is
  passed over: whatever its \<open>readyState\<close> is, each helper's effects on the sockets other
  than \<open>x\<close> are the same. And for every payload the calls of \<^verbatim>\<open>send\<close> that the message
  handler makes, sockets and values, are with the failures \<open>b\<close> the ones it makes with none:
  a failed delivery adds no error event for the sender. A failed delivery is one that the
  transport reports after the call; that \<^verbatim>\<open>send\<close> itself does not throw is the contract of
  the library stated with \<open>ws_send\<close>.
\<close>

theorem broadcast_sends_independent:
  "broadcastToAll (s\<lparr>broken := b\<rparr>) m sender =
     (map (\<lambda>c. if b c then SendFailed c (JSON_stringify m) else Send c (JSON_stringify m))
        (recipients (\<lambda>c. Some c \<noteq> sender) s),
      length (recipients (\<lambda>c. Some c \<noteq> sender) s)) \<and>
   broadcastToESP32 (s\<lparr>broken := b\<rparr>) m =
     (map (\<lambda>c. if b c then SendFailed c (JSON_stringify m) else Send c (JSON_stringify m))
        (recipients (has_type s esp32) s),
      length (recipients (has_type s esp32) s)) \<and>
   broadcastToWeb (s\<lparr>broken := b\<rparr>) m =
     (map (\<lambda>c. if b c then SendFailed c (JSON_stringify m) else Send c (JSON_stringify m))
        (recipients (has_type s web) s),
      length (recipients (has_type s web) s)) \<and>
   not_to x (fst (broadcastToAll (s\<lparr>readyState := (readyState s)(x := k)\<rparr>) m sender)) =
     not_to x (fst (broadcastToAll s m sender)) \<and>
   not_to x (fst (broadcastToESP32 (s\<lparr>readyState := (readyState s)(x := k)\<rparr>) m)) =
     not_to x (fst (broadcastToESP32 s m)) \<and>
   not_to x (fst (broadcastToWeb (s\<lparr>readyState := (readyState s)(x := k)\<rparr>) m)) =
     not_to x (fst (broadcastToWeb s m)) \<and>
   map sent_to (fst (on_message ws parsed t clk (s\<lparr>broken := b\<rparr>))) =
     map sent_to (fst (on_message ws parsed t clk s))"
  by (simp add: broadcastToAll_eq broadcastToESP32_eq broadcastToWeb_eq map_ws_send_recipients
      not_to_sends_other_closed sent_on_message_broken)

theorem broadcast_sends_independent_witness:
  "broadcastToAll (example\<lparr>broken := (\<lambda>c. c = 1)\<rparr>) (JObj [(''type'', JStr ''hello'')]) (Some 0) =
     ([SendFailed 1 (JObj [(''type'', JStr ''hello'')]), Send 2 (JObj [(''type'', JStr ''hello'')])], 2) \<and>
   map sent_to (fst (on_message 0 (Inr (JObj [(''type'', JStr ''hello'')])) 5 noon
       (example\<lparr>broken := (\<lambda>c. c = 1)\<rparr>))) =
     [Some (1, JObj [(''type'', JStr ''hello'')]), Some (2, JObj [(''type'', JStr ''hello'')])]"
proof -
  let ?b = "\<lambda>c::conn. c = 1"
  let ?m = "JObj [(''type'', JStr ''hello'')]"
  note T = broadcast_sends_independent [where s = example and b = ?b and m = ?m and sender = "Some 0"
      and parsed = "Inr ?m" and ws = 0 and t = 5 and clk = noon]
  have r: "recipients (\<lambda>c. Some c \<noteq> Some 0) example = [1, 2]"
    by (simp add: recipients_def example_def)
  from T have a: "broadcastToAll (example\<lparr>broken := ?b\<rparr>) ?m (Some 0) =
      ([SendFailed 1 ?m, Send 2 ?m], 2)"
    by (simp only: r) simp
  have "map sent_to (fst (on_message 0 (Inr ?m) 5 noon example)) = [Some (1, ?m), Some (2, ?m)]"
    by (simp add: on_message_def switch_type_def broadcastToAll_eq recipients_def Let_def)
       (simp add: example_def)
  with T have "map sent_to (fst (on_message 0 (Inr ?m) 5 noon (example\<lparr>broken := ?b\<rparr>))) =
      [Some (1, ?m), Some (2, ?m)]"
    by simp
  with a show ?thesis by blast
qed

section \<open>Shutdown\<close>

lemma forEach_close_effects:
  "fst (forEach_close cs s) = map (\<lambda>c. Close c 1000 ''Server shutting down'') cs"
  by (induction cs arbitrary: s) (simp_all add: split_def)

lemma ws_close_frame [simp]:
  "wss_clients (ws_close c s) = wss_clients s"
  "clients (ws_close c s) = clients s"
  "next_conn (ws_close c s) = next_conn s"
  "broken (ws_close c s) = broken s"
  "NODE_ENV (ws_close c s) = NODE_ENV s"
  by (simp_all add: ws_close_def)

lemma forEach_close_state:
  "snd (forEach_close cs s) =
     s\<lparr>readyState := (\<lambda>c. if c \<in> set cs \<and> readyState s c = 1 then 2 else readyState s c)\<rparr>"
proof (induction cs arbitrary: s)
  case Nil
  then show ?case by simp
next
  case (Cons a cs)
  show ?case
    by (simp add: Cons split_def) (auto simp: ws_close_def fun_eq_iff)
qed

text \<open>
  C9, as amended. \<open>shutdown\<close> calls \<^verbatim>\<open>close(1000, 'Server shutting down')\<close> on every socket
  of \<^verbatim>\<open>wss.clients\<close>, which sends the close frame on each open one and makes it closing, then
  calls \<^verbatim>\<open>server.close\<close> and registers a timer of 10000 milliseconds whose callback exits with
  code 1 whatever the state is; the callback of \<^verbatim>\<open>server.close\<close> exits with code 0. A
  termination signal and an uncaught exception both run \<open>shutdown\<close>. An unhandled promise
  rejection is logged: it has no effect and leaves the state as it is.
\<close>

theorem shutdown_paths:
  "shutdown s =
     (map (\<lambda>c. Close c 1000 ''Server shutting down'') (wss_clients s) @
        [ServerClose, SetTimeout 10000 ForcedShutdown],
      s\<lparr>readyState := (\<lambda>c. if c \<in> set (wss_clients s) \<and> readyState s c = 1 then 2
                               else readyState s c)\<rparr>) \<and>
   step (Timeout ForcedShutdown clk1 clk2) s' = ([Exit 1], s') \<and>
   step ServerClosed s' = ([Exit 0], s') \<and>
   step Signal s = shutdown s \<and>
   step UncaughtException s = shutdown s \<and>
   step UnhandledRejection s = ([], s)"
  by (simp add: shutdown_def split_def forEach_close_effects forEach_close_state
      server_closed_def on_uncaughtException_def on_unhandledRejection_def)

text \<open>
  C9 as stated fails for one kind of uncaught fault: with four sockets tracked, an unhandled
  rejection sends no close frame, calls no \<^verbatim>\<open>server.close\<close> and registers no timer, where an
  uncaught exception does all three.
\<close>

theorem unhandled_rejection_counterexample:
  "wss_clients example = [0, 1, 2, 3] \<and>
   readyState example 0 = 1 \<and>
   fst (step UnhandledRejection example) = [] \<and>
   readyState (snd (step UnhandledRejection example)) 0 = 1 \<and>
   fst (step UncaughtException example) =
     [Close 0 1000 ''Server shutting down'', Close 1 1000 ''Server shutting down'',
      Close 2 1000 ''Server shutting down'', Close 3 1000 ''Server shutting down'',
      ServerClose, SetTimeout 10000 ForcedShutdown]"
  by (simp add: on_unhandledRejection_def on_uncaughtException_def shutdown_def split_def
      forEach_close_effects) (simp add: example_def)

section \<open>Well-formedness is invariant\<close>

lemma wf_init: "wf (init env)"
  by (simp add: wf_def init_def)

lemma forEach_stale_frame [simp]:
  "clients (fst (snd (forEach_stale t xs s))) = clients s"
  "wss_clients (fst (snd (forEach_stale t xs s))) = wss_clients s"
  "next_conn (fst (snd (forEach_stale t xs s))) = next_conn s"
  "broken (fst (snd (forEach_stale t xs s))) = broken s"
  by (induction xs arbitrary: s; auto simp: split_def ws_terminate_def)+

lemma shutdown_frame [simp]:
  "clients (snd (shutdown s)) = clients s"
  "wss_clients (snd (shutdown s)) = wss_clients s"
  "next_conn (snd (shutdown s)) = next_conn s"
  by (simp_all add: shutdown_def split_def forEach_close_state)

lemma snd_step_stale:
  "snd (step (StaleInterval t) s) =
     (case snd (snd (stale_interval t s)) of
        None \<Rightarrow> fst (snd (stale_interval t s))
      | Some error \<Rightarrow> snd (shutdown (fst (snd (stale_interval t s)))))"
  by (simp add: split_def on_uncaughtException_def split: option.splits)

lemma stale_step_frame [simp]:
  "clients (snd (step (StaleInterval t) s)) = clients s"
  "wss_clients (snd (step (StaleInterval t) s)) = wss_clients s"
  "next_conn (snd (step (StaleInterval t) s)) = next_conn s"
  by (simp_all only: snd_step_stale) (simp_all add: stale_interval_def split: option.splits)

lemma key_tracked: "wf s \<Longrightarrow> map_of (clients s) c = Some d \<Longrightarrow> c \<in> set (wss_clients s)"
  by (force simp: wf_def dest: map_of_SomeD)

lemma wf_accept_connection:
  assumes "wf s"
  shows "wf (snd (step (Connection addr clk clk') s))"
proof -
  from assms have "next_conn s \<notin> set (wss_clients s)"
    by (auto simp: wf_def list_all_iff)
  with assms show ?thesis
    by (auto simp: wf_def accept_def on_connection_def Let_def list_all_iff dom_update
        dest: less_SucI)
qed

lemma wf_update_metadata: "wf s \<Longrightarrow> wf (update_metadata ws m t s)"
  using key_tracked [of s ws]
  by (auto simp: wf_def update_metadata_def list_all_iff dom_update split: option.splits)

lemma wf_set_type: "wf s \<Longrightarrow> wf (set_type ws r s)"
  using key_tracked [of s ws]
  by (auto simp: wf_def set_type_def list_all_iff dom_update split: option.splits)

lemma snd_on_message_cases:
  "snd (on_message ws parsed t clk s) = s \<or>
   snd (on_message ws parsed t clk s) = update_metadata ws (projr parsed) t s \<or>
   (\<exists>r. snd (on_message ws parsed t clk s) = set_type ws r (update_metadata ws (projr parsed) t s))"
proof (cases parsed)
  case (Inl error)
  then show ?thesis by (simp add: on_message_def catch_block_def)
next
  case (Inr message)
  show ?thesis
  proof (cases "message = JNull \<or> message = JUndefined")
    case True
    with Inr show ?thesis by (auto simp: on_message_def catch_block_def)
  next
    case False
    with Inr show ?thesis
      by (auto simp: snd_on_message split: option.splits)
  qed
qed

lemma wf_on_message: "wf s \<Longrightarrow> wf (snd (on_message ws parsed t clk s))"
  using snd_on_message_cases [of ws parsed t clk s]
  by (auto simp: wf_update_metadata wf_set_type)

lemma wf_on_pong: "wf s \<Longrightarrow> wf (snd (on_pong ws t s))"
  using key_tracked [of s ws]
  by (auto simp: wf_def on_pong_def list_all_iff dom_update split: option.splits)

lemma wf_close: "wf s \<Longrightarrow> wf (snd (on_close ws (socket_closed ws s)))"
  using dom_delete_subset [of ws "clients s"] delete_notin_dom [of ws "clients s"]
  by (auto simp: wf_def on_close_def socket_closed_def list_all_iff distinct_removeAll)

lemma wf_frame:
  "wf s \<Longrightarrow> clients s' = clients s \<Longrightarrow> wss_clients s' = wss_clients s \<Longrightarrow>
   next_conn s' = next_conn s \<Longrightarrow> wf s'"
  by (simp add: wf_def)

lemma wf_step: "wf s \<Longrightarrow> wf (snd (step e s))"
proof (cases e)
  case (Connection addr clk clk')
  assume "wf s"
  with Connection show ?thesis using wf_accept_connection by simp
next
  case (LinkFailure c)
  assume "wf s"
  with LinkFailure show ?thesis by (simp add: wf_def)
next
  case (Timeout cb c1 c2)
  assume "wf s"
  with Timeout show ?thesis by (cases cb) simp_all
next
  case (StaleInterval t)
  assume "wf s"
  then show ?thesis unfolding StaleInterval by (rule wf_frame) (simp_all only: stale_step_frame)
next
  case Signal
  assume "wf s"
  then show ?thesis unfolding Signal step.simps by (rule wf_frame) simp_all
next
  case UncaughtException
  assume "wf s"
  then show ?thesis unfolding UncaughtException step.simps on_uncaughtException_def
    by (rule wf_frame) simp_all
qed (simp_all add: wf_on_message wf_close wf_on_pong on_error_def
      ping_interval_def on_unhandledRejection_def server_closed_def)

lemma wf_run: "wf s \<Longrightarrow> wf (run es s)"
  by (induction es arbitrary: s) (simp_all add: wf_step)

section \<open>The type of a record\<close>

lemma snd_run_timer [simp]: "snd (run_timer cb c1 c2 s) = s"
  by (cases cb) simp_all

lemma record_below_next_conn:
  "wf s \<Longrightarrow> map_of (clients s) c = Some d \<Longrightarrow> c \<in> set (wss_clients s) \<and> c < next_conn s"
  using key_tracked [of s c d] by (auto simp: wf_def list_all_iff)

lemma type_after_step:
  assumes "wf s" and "map_of (clients s) c = Some d"
    and "map_of (clients (snd (step e s))) c = Some d'"
  shows "type d' = type_after e c (type d)"
proof -
  from assms(1,2) have c: "c \<in> set (wss_clients s)" "c < next_conn s"
    using record_below_next_conn by blast+
  show ?thesis
  proof (cases e)
    case (Connection addr clk clk')
    with assms(2,3) c show ?thesis
      by (auto simp: accept_def on_connection_def Let_def update_conv')
  next
    case (Message ws parsed t clk)
    show ?thesis
    proof (cases parsed)
      case (Inl err)
      with Message assms(2,3) show ?thesis
        by (auto simp: on_message_def catch_block_def split: if_splits)
    next
      case (Inr m)
      show ?thesis
      proof (cases "m = JNull \<or> m = JUndefined")
        case True
        with Inr Message assms(2,3) show ?thesis
          by (auto simp: on_message_def catch_block_def split: if_splits)
      next
        case False
        show ?thesis
        proof (cases "printable (js_get m ''type'')")
          case True
          with False Inr Message assms(2,3) c show ?thesis
            by (auto simp: snd_on_message map_of_set_type map_of_update_metadata
                split: option.splits if_splits)
        next
          case False
          then have "declared_type m = None" by (auto simp: declared_type_def)
          with False \<open>\<not> (m = JNull \<or> m = JUndefined)\<close> Inr Message assms(2,3) show ?thesis
            by (auto simp: snd_on_message split: if_splits)
        qed
      qed
    qed
  next
    case (CloseEvent ws)
    with assms(2,3) show ?thesis
      by (auto simp: on_close_def socket_closed_def delete_conv' split: if_splits)
  next
    case (PongEvent ws t)
    with assms(2,3) show ?thesis
      by (auto simp: on_pong_def update_conv' split: if_splits option.splits)
  next
    case (StaleInterval t)
    with assms(2,3) show ?thesis by (simp del: step.simps)
  qed (use assms(2,3) in \<open>auto simp: on_error_def ping_interval_def on_uncaughtException_def
        on_unhandledRejection_def server_closed_def split: if_splits\<close>)
qed

lemma next_conn_step: "next_conn s \<le> next_conn (snd (step e s))"
proof (cases e)
  case (Message ws parsed t clk)
  then show ?thesis
    using snd_on_message_cases [of ws parsed t clk s] by auto
next
  case (StaleInterval t)
  then show ?thesis by (simp del: step.simps)
qed (auto simp: accept_def on_connection_def Let_def on_close_def socket_closed_def on_pong_def
      on_error_def ping_interval_def on_uncaughtException_def
      on_unhandledRejection_def server_closed_def split: option.splits)

lemma no_record_step:
  assumes "c < next_conn s" and "map_of (clients s) c = None"
  shows "map_of (clients (snd (step e s))) c = None"
proof (cases e)
  case (Message ws parsed t clk)
  with assms show ?thesis
    using snd_on_message_cases [of ws parsed t clk s]
    by (auto simp: map_of_set_type map_of_update_metadata split: option.splits)
next
  case (StaleInterval t)
  with assms show ?thesis by (simp del: step.simps)
qed (use assms in \<open>auto simp: accept_def on_connection_def Let_def on_close_def socket_closed_def
      on_pong_def update_conv' delete_conv' on_error_def ping_interval_def
      on_uncaughtException_def on_unhandledRejection_def server_closed_def split: option.splits\<close>)

lemma no_record_run:
  "c < next_conn s \<Longrightarrow> map_of (clients s) c = None \<Longrightarrow> map_of (clients (run es s)) c = None"
proof (induction es arbitrary: s)
  case Nil
  then show ?case by simp
next
  case (Cons e es)
  have "c < next_conn (snd (step e s))"
    using Cons.prems(1) next_conn_step [of s e] by simp
  with Cons show ?case by (simp add: no_record_step del: step.simps)
qed

lemma type_after_known: "r \<noteq> unknown \<Longrightarrow> type_after e c r \<noteq> unknown"
  by (induction e c r rule: type_after.induct)
     (auto simp: declared_type_def split: option.splits if_splits)

lemma type_known_run:
  assumes "wf s" and "map_of (clients s) c = Some d" and "type d \<noteq> unknown"
    and "map_of (clients (run es s)) c = Some d'"
  shows "type d' \<noteq> unknown"
  using assms
proof (induction es arbitrary: s d)
  case Nil
  then show ?case by simp
next
  case (Cons e es)
  let ?s1 = "snd (step e s)"
  have wf1: "wf ?s1" using Cons.prems(1) by (rule wf_step)
  show ?case
  proof (cases "map_of (clients ?s1) c")
    case None
    have "c < next_conn ?s1"
      using record_below_next_conn [OF Cons.prems(1,2)] next_conn_step [of s e] by simp
    then have "map_of (clients (run es ?s1)) c = None" using None by (rule no_record_run)
    with Cons.prems(4) show ?thesis by simp
  next
    case (Some d1)
    have "type d1 = type_after e c (type d)"
      using Cons.prems(1,2) Some by (rule type_after_step)
    with Cons.prems(3) have "type d1 \<noteq> unknown" by (simp add: type_after_known)
    with Cons.IH [OF wf1 Some] Cons.prems(4) show ?thesis by simp
  qed
qed

lemma declared_sets_type:
  assumes "map_of (clients s) c = Some d" and "c \<in> set (wss_clients s)"
    and "declared_type m = Some r"
  shows "map_option type (map_of (clients (snd (step (Message c (Inr m) t clk) s))) c) = Some r"
proof -
  from assms(3) have "m \<noteq> JNull" "m \<noteq> JUndefined" "printable (js_get m ''type'')"
    by (auto simp: declared_type_def split: if_splits)
  with assms show ?thesis
    by (simp add: snd_on_message map_of_set_type map_of_update_metadata)
qed

lemma registration_unknown:
  "map_option type (map_of (clients (snd (step (Connection addr clk clk') s))) (next_conn s)) =
     Some unknown"
  by (simp add: accept_def on_connection_def Let_def update_conv')

text \<open>
  C4, as amended. In every state \<open>s\<close> that a history of events leads to from the start: the
  record made for a new socket has type \<open>unknown\<close>; a message from a socket with a record
  that declares a type (\<^verbatim>\<open>esp32_connected\<close>, \<^verbatim>\<open>web_connected\<close>) sets the record's type to the
  declared one, whatever it was before, so a later declaration of the other type changes it;
  no other event changes the type of a record that stays (\<open>type_after\<close>); and through any
  further history a type other than \<open>unknown\<close> never becomes \<open>unknown\<close> again.
\<close>

theorem type_transitions:
  "(let s = run es (init env)
    in map_option type (map_of (clients (snd (step (Connection addr clk clk') s))) (next_conn s)) =
         Some unknown \<and>
       (\<forall>c d m t' clk' r. map_of (clients s) c = Some d \<and> declared_type m = Some r \<longrightarrow>
          map_option type (map_of (clients (snd (step (Message c (Inr m) t' clk') s))) c) = Some r) \<and>
       (\<forall>c d e d'. map_of (clients s) c = Some d \<and>
          map_of (clients (snd (step e s))) c = Some d' \<longrightarrow> type d' = type_after e c (type d)) \<and>
       (\<forall>c d es' d'. map_of (clients s) c = Some d \<and> type d \<noteq> unknown \<and>
          map_of (clients (run es' s)) c = Some d' \<longrightarrow> type d' \<noteq> unknown))"
proof -
  let ?s = "run es (init env)"
  have wf: "wf ?s" by (simp add: wf_run wf_init)
  have a: "map_option type (map_of (clients (snd (step (Connection addr clk clk') ?s))) (next_conn ?s)) =
      Some unknown"
    by (rule registration_unknown)
  have b: "map_option type (map_of (clients (snd (step (Message c (Inr m) t' k) ?s))) c) = Some r"
    if "map_of (clients ?s) c = Some d \<and> declared_type m = Some r" for c d m t' k r
    using that record_below_next_conn [OF wf, of c d] declared_sets_type [of ?s c d m r t' k]
    by blast
  have c: "type d' = type_after e c (type d)"
    if "map_of (clients ?s) c = Some d \<and> map_of (clients (snd (step e ?s))) c = Some d'"
    for c d e d'
    using that type_after_step [OF wf, of c d e d'] by blast
  have d: "type d' \<noteq> unknown"
    if "map_of (clients ?s) c = Some d \<and> type d \<noteq> unknown \<and>
        map_of (clients (run es' ?s)) c = Some d'" for c d es' d'
    using that type_known_run [OF wf, of c d es' d'] by blast
  show ?thesis
    unfolding Let_def using a b c d by blast
qed

lemma device_history_state:
  "run device_history (init ''test'') =
     \<lparr>NODE_ENV = ''test'', wss_clients = [0], readyState = (\<lambda>c. 3)(0 := 1),
      broken = (\<lambda>c. False)(0 := False),
      clients = [(0, \<lparr>ip = ''10.0.0.1'', connected_at = iso noon, type = esp32, device_id = JNull,
                       lastPing = 5\<rparr>)],
      next_conn = 1\<rparr>"
  by (simp add: device_history_def init_def accept_def on_connection_def on_message_def
      switch_type_def update_metadata_def set_type_def noon_def Let_def)

text \<open>
  C4 as stated fails: the socket that announced itself as a scan device and then sends
  \<^verbatim>\<open>web_connected\<close> has its type changed from \<open>esp32\<close> to \<open>web\<close>.
\<close>

theorem role_change_counterexample:
  "map_option type (map_of (clients (run device_history (init ''test''))) 0) = Some esp32 \<and>
   declared_type (JObj [(''type'', JStr ''web_connected'')]) = Some web \<and>
   map_option type (map_of (clients (run (device_history @
       [Message 0 (Inr (JObj [(''type'', JStr ''web_connected'')])) 6 noon]) (init ''test''))) 0) = Some web"
  by (simp add: device_history_def init_def accept_def on_connection_def on_message_def
      switch_type_def update_metadata_def set_type_def noon_def declared_type_def Let_def)

theorem type_transitions_witness:
  "map_option type (map_of (clients (snd (step (Connection ''10.0.0.2'' noon noon)
      (run device_history (init ''test''))))) (next_conn (run device_history (init ''test'')))) = Some unknown \<and>
   map_option type (map_of (clients (run device_history (init ''test''))) 0) = Some esp32 \<and>
   declared_type (JObj [(''type'', JStr ''web_connected'')]) = Some web \<and>
   map_option type (map_of (clients (snd (step
      (Message 0 (Inr (JObj [(''type'', JStr ''web_connected'')])) 6 noon)
      (run device_history (init ''test''))))) 0) = Some web \<and>
   map_option type (map_of (clients (run [PongEvent 0 7, StaleInterval 8]
      (run device_history (init ''test'')))) 0) = Some esp32 \<and>
   esp32 \<noteq> unknown"
proof -
  let ?s = "run device_history (init ''test'')"
  let ?w = "JObj [(''type'', JStr ''web_connected'')]"
  let ?d = "\<lparr>ip = ''10.0.0.1'', connected_at = iso noon, type = esp32, device_id = JNull,
             lastPing = 5\<rparr>"
  let ?d' = "\<lparr>ip = ''10.0.0.1'', connected_at = iso noon, type = esp32, device_id = JNull,
             lastPing = 7\<rparr>"
  note T = type_transitions [of device_history "''test''" "''10.0.0.2''" noon noon, unfolded Let_def]
  have r: "map_of (clients ?s) 0 = Some ?d" by (simp add: device_history_state)
  have w: "declared_type ?w = Some web" by (simp add: declared_type_def)
  have p: "map_of (clients (run [PongEvent 0 7, StaleInterval 8] ?s)) 0 = Some ?d'"
    by (simp add: device_history_state on_pong_def del: step.simps(8))
  from T have a: "map_option type (map_of (clients (snd (step (Connection ''10.0.0.2'' noon noon) ?s)))
      (next_conn ?s)) = Some unknown" by blast
  from T r w have b: "map_option type (map_of (clients (snd (step (Message 0 (Inr ?w) 6 noon) ?s))) 0)
      = Some web" by blast
  from T r p have "type ?d' \<noteq> unknown"
    by (metis client_data.select_convs(3) client_type.distinct(1))
  with a b r w p show ?thesis by simp
qed

section \<open>Eviction of stale connections\<close>

lemma stale_pair [simp]: "stale t (c, d) = (t - lastPing d > 120000)"
  by (simp add: stale_def)

text \<open>When every stale record has a printable \<open>device_id\<close>, the sweep calls \<^verbatim>\<open>terminate\<close> on
  each stale socket and throws nothing; the close handler then deletes the record.\<close>

lemma forEach_stale_printable:
  assumes "list_all (\<lambda>p. stale t p \<longrightarrow> printable (device_id (snd p))) xs"
  shows "fst (forEach_stale t xs s) = map (\<lambda>p. Terminate (fst p)) (filter (stale t) xs) \<and>
         snd (snd (forEach_stale t xs s)) = None"
  using assms
proof (induction xs arbitrary: s)
  case Nil
  then show ?case by simp
next
  case (Cons p xs)
  obtain c d where p: "p = (c, d)" by (cases p)
  from Cons.prems have "list_all (\<lambda>p. stale t p \<longrightarrow> printable (device_id (snd p))) xs"
    by simp
  then have ih: "fst (forEach_stale t xs s') = map (\<lambda>p. Terminate (fst p)) (filter (stale t) xs) \<and>
         snd (snd (forEach_stale t xs s')) = None" for s'
    by (rule Cons.IH)
  show ?case
    using Cons.prems ih unfolding p by (simp add: split_def)
qed

lemma close_removes_record:
  "ws \<in> set (wss_clients s) \<Longrightarrow> map_of (clients (snd (step (CloseEvent ws) s))) ws = None"
  by (simp add: on_close_def delete_conv')

text \<open>
  C5. The claim fails on one input. A \<^verbatim>\<open>ping\<close> whose \<^verbatim>\<open>device_id\<close> is \<^verbatim>\<open>{"toString":1}\<close>
  stores that object in the record of scan device 0. When the record is stale, the sweep at
  200001 throws at the log of line 356 before \<^verbatim>\<open>ws.terminate()\<close>: there is no \<open>Terminate\<close>,
  the record stays, and the uncaught error runs \<open>shutdown\<close>, which closes all four sockets.
  With the \<^verbatim>\<open>device_id\<close> \<^verbatim>\<open>D1\<close> the same sweep terminates socket 0.
\<close>

theorem stale_sweep_log_throws:
  "map_option device_id (map_of (clients (snd (on_message 0
      (Inr (JObj [(''type'', JStr ''ping''), (''device_id'', unprintable)])) 1000 noon example))) 0) =
     Some unprintable \<and>
   map_option lastPing (map_of (clients (snd (on_message 0
      (Inr (JObj [(''type'', JStr ''ping''), (''device_id'', unprintable)])) 1000 noon example))) 0) =
     Some 1000 \<and>
   fst (step (StaleInterval 200001) (snd (on_message 0
      (Inr (JObj [(''type'', JStr ''ping''), (''device_id'', unprintable)])) 1000 noon example))) =
     [Close 0 1000 ''Server shutting down'', Close 1 1000 ''Server shutting down'',
      Close 2 1000 ''Server shutting down'', Close 3 1000 ''Server shutting down'',
      ServerClose, SetTimeout 10000 ForcedShutdown] \<and>
   map_option type (map_of (clients (snd (step (StaleInterval 200001) (snd (on_message 0
      (Inr (JObj [(''type'', JStr ''ping''), (''device_id'', unprintable)])) 1000 noon example))))) 0) =
     Some esp32 \<and>
   fst (step (StaleInterval 200001) example) = [Terminate 0]"
proof -
  let ?m = "JObj [(''type'', JStr ''ping''), (''device_id'', unprintable)]"
  let ?s = "snd (on_message 0 (Inr ?m) 1000 noon example)"
  have s: "?s = example\<lparr>clients :=
      [(0, \<lparr>ip = ''10.0.0.1'', connected_at = ''T0'', type = esp32, device_id = unprintable,
             lastPing = 1000\<rparr>),
       (1, \<lparr>ip = ''10.0.0.2'', connected_at = ''T1'', type = web, device_id = JNull,
             lastPing = 200000\<rparr>),
       (2, \<lparr>ip = ''10.0.0.3'', connected_at = ''T2'', type = unknown, device_id = JNull,
             lastPing = 200000\<rparr>),
       (3, \<lparr>ip = ''10.0.0.4'', connected_at = ''T3'', type = web, device_id = JNull,
             lastPing = 200000\<rparr>)]\<rparr>"
    by (simp add: snd_on_message declared_type_def update_metadata_def example_def unprintable_def)
  have a: "fst (step (StaleInterval 200001) ?s) =
     [Close 0 1000 ''Server shutting down'', Close 1 1000 ''Server shutting down'',
      Close 2 1000 ''Server shutting down'', Close 3 1000 ''Server shutting down'',
      ServerClose, SetTimeout 10000 ForcedShutdown]"
    unfolding s
    by (simp add: stale_interval_def on_uncaughtException_def shutdown_def split_def
        forEach_close_effects example_def)
  have b: "map_option type (map_of (clients (snd (step (StaleInterval 200001) ?s))) 0) = Some esp32"
    by (simp only: stale_step_frame s) (simp add: example_def)
  have c: "fst (step (StaleInterval 200001) example) = [Terminate 0]"
    by (simp add: stale_interval_def example_def)
  show ?thesis
    using a b c by (simp only: s) (simp add: example_def)
qed

end
